theory Spec2Isabelle
  imports Complex_Main "HOL-Library.Multiset" "HOL-Library.Word"
begin

section \<open>Data model\<close>

text \<open>
  The entities of the analysis result, as the TypeScript interfaces declare them
  (the same declarations are repeated in every component file).  A JavaScript
  \<^verbatim>\<open>number\<close> is modelled as a \<^typ>\<open>real\<close>: scores are finite, and rounding,
  \<^verbatim>\<open>NaN\<close> and the infinities are outside the model.  The field \<^verbatim>\<open>branch_type\<close> is
  declared as a union of four string literals and is a datatype here.
\<close>

datatype branch_type = procedural | substantive | evidence | timing

record BranchPoint =
  branch_id :: string
  node_id :: string
  branch_type :: branch_type
  condition :: string
  alternatives :: "string list"
  criticality_score :: real

record Dependency =
  dependency_id :: string
  source_node_id :: string
  target_node_id :: string
  strength :: real
  cascade_potential :: bool

record Cascade =
  cascade_id :: string
  initiating_branch_id :: string
  amplification_chain :: "string list"
  severity_score :: real
  preventable :: bool

section \<open>RiskHeatmap: the derived risk data\<close>

record RiskItem =
  item_id :: string
  item_type :: branch_type
  risk :: real
  cascadeCount :: nat

text \<open>
  \<^verbatim>\<open>relatedCascades.length > 0 ? Math.max(...relatedCascades.map(c => c.severity_score)) : 0\<close>.
  The guard is the empty case of the list; \<^verbatim>\<open>Math.max\<close> on a non-empty argument list
  is the running maximum from its first argument on.
\<close>

definition maxSeverity :: "Cascade list \<Rightarrow> real" where
  "maxSeverity relatedCascades =
     (case map severity_score relatedCascades of
        [] \<Rightarrow> 0
      | s # ss \<Rightarrow> fold max ss s)"

definition riskItem :: "Cascade list \<Rightarrow> BranchPoint \<Rightarrow> RiskItem" where
  "riskItem cascades bp =
     (let relatedCascades = filter (\<lambda>c. initiating_branch_id c = branch_id bp) cascades;
          combinedRisk = (criticality_score bp * 0.6) + (maxSeverity relatedCascades * 0.4)
      in \<lparr> item_id = branch_id bp,
           item_type = branch_type bp,
           risk = combinedRisk,
           cascadeCount = length relatedCascades \<rparr>)"

definition riskData :: "BranchPoint list \<Rightarrow> Cascade list \<Rightarrow> RiskItem list" where
  "riskData branchPoints cascades = map (riskItem cascades) branchPoints"

text \<open>
  The metric as the specification words it: the greatest severity among the cascades
  initiated by the branch, and 0 when there is none.
\<close>

definition spec_maxCascadeSeverity :: "Cascade list \<Rightarrow> string \<Rightarrow> real" where
  "spec_maxCascadeSeverity cascades bid =
     (if {c \<in> set cascades. initiating_branch_id c = bid} = {} then 0
      else Max (severity_score ` {c \<in> set cascades. initiating_branch_id c = bid}))"

section \<open>RiskHeatmap: the drawing\<close>

text \<open>
  The \<^verbatim>\<open>svg\<close> element a component draws into keeps its content between runs of the
  component's effect, so it is a piece of state: its size attributes and its children.
\<close>

record 'e svg =
  svg_width :: "nat option"
  svg_height :: "nat option"
  svg_children :: "'e list"

definition empty_svg :: "'e svg" where
  "empty_svg = \<lparr> svg_width = None, svg_height = None, svg_children = [] \<rparr>"

text \<open>
  The elements the heatmap appends.  A fill computed by the colour scale is kept as the
  scale's argument (the scale itself belongs to the visualisation library), and a text
  printed with \<^verbatim>\<open>toFixed\<close> as the number printed.
\<close>

datatype heat_elem =
    CellRect nat nat nat nat real "branch_type \<times> real \<times> nat"
      \<comment> \<open>x, y, width, height, argument of the colour scale, title: type, risk, cascades\<close>
  | CellText nat nat string real
      \<comment> \<open>x, y, fill, the risk printed\<close>
  | TypeLabel nat nat branch_type
      \<comment> \<open>x, y, the type printed\<close>
  | LegendGradient "(string \<times> real) list"
      \<comment> \<open>the stops: offset, argument of the colour scale\<close>
  | LegendBar nat nat nat nat
      \<comment> \<open>x, y, width, height\<close>
  | LegendAxis nat nat
      \<comment> \<open>the translation of the axis group\<close>
  | LegendTitle nat nat string

text \<open>
  \<^verbatim>\<open>typeGroups\<close> is an object used as a dictionary.  Its keys are among the four type
  names, none of which is an array index, so \<^verbatim>\<open>Object.keys\<close> lists them in the order of
  their first insertion: an association list, extended at its end.
\<close>

fun push_group :: "RiskItem \<Rightarrow> (branch_type \<times> RiskItem list) list
    \<Rightarrow> (branch_type \<times> RiskItem list) list" where
  "push_group item [] = [(item_type item, [item])]"
| "push_group item ((k, g) # groups) =
     (if k = item_type item then (k, g @ [item]) # groups
      else (k, g) # push_group item groups)"

definition typeGroups :: "RiskItem list \<Rightarrow> (branch_type \<times> RiskItem list) list" where
  "typeGroups items = foldl (\<lambda>groups item. push_group item groups) [] items"

definition cellSize :: nat where "cellSize = 40"
definition padding :: nat where "padding = 40"

definition draw_item :: "branch_type \<Rightarrow> nat \<Rightarrow> nat \<Rightarrow> RiskItem \<Rightarrow> heat_elem list" where
  "draw_item ty typeIdx itemIdx item =
     (let x = padding + (itemIdx * cellSize);
          y = padding + (typeIdx * cellSize)
      in [CellRect x y (cellSize - 2) (cellSize - 2) (risk item)
            (ty, risk item, cascadeCount item),
          CellText (x + (cellSize div 2)) (y + (cellSize div 2))
            (if risk item > 0.5 then ''white'' else ''#333'') (risk item)])"

definition draw_row :: "nat \<Rightarrow> branch_type \<times> RiskItem list \<Rightarrow> heat_elem list" where
  "draw_row typeIdx row =
     concat (map (\<lambda>(itemIdx, item). draw_item (fst row) typeIdx itemIdx item)
                 (enumerate 0 (snd row)))
     @ [TypeLabel 10 (padding + (typeIdx * cellSize) + (cellSize div 2)) (fst row)]"

definition draw_legend :: "heat_elem list" where
  "draw_legend =
     (let width = 600; legendWidth = 200; legendHeight = 20;
          legendX = width - legendWidth - 20; legendY = 20
      in [LegendGradient [(''0%'', 0), (''50%'', 0.5), (''100%'', 1)],
          LegendBar legendX legendY legendWidth legendHeight,
          LegendAxis legendX (legendY + legendHeight),
          LegendTitle legendX (legendY - 5) ''Combined Risk Score''])"

text \<open>
  The body of the effect.  \<^verbatim>\<open>svgRef.current\<close> is set once the component is mounted,
  which is before any effect runs, so the guard is the test on the length alone.  The
  early return precedes the removal of the previous drawing.
\<close>

definition RiskHeatmap_effect ::
    "BranchPoint list \<Rightarrow> Cascade list \<Rightarrow> heat_elem svg \<Rightarrow> heat_elem svg" where
  "RiskHeatmap_effect branchPoints cascades svg =
     (if length branchPoints = 0 then svg
      else
        let groups = typeGroups (riskData branchPoints cascades)
        in \<lparr> svg_width = Some 600, svg_height = Some 300,
             svg_children =
               concat (map (\<lambda>(typeIdx, row). draw_row typeIdx row) (enumerate 0 groups))
               @ draw_legend \<rparr>)"

text \<open>
  What the component returns to be rendered does not depend on its inputs: the host
  \<^verbatim>\<open>svg\<close> and two explanatory paragraphs, given here by their headings.
\<close>

datatype heat_jsx = SvgHost | InfoParagraph string

definition RiskHeatmap_jsx :: "BranchPoint list \<Rightarrow> Cascade list \<Rightarrow> heat_jsx list" where
  "RiskHeatmap_jsx branchPoints cascades =
     [SvgHost, InfoParagraph ''Risk Score Formula:'', InfoParagraph ''Color Guide:'']"

section \<open>BranchPointHighlighter\<close>

datatype glyph = Scales | Clipboard | MagnifyingGlass | AlarmClock

definition getBranchTypeColor :: "branch_type \<Rightarrow> string" where
  "getBranchTypeColor ty =
     (case ty of procedural \<Rightarrow> ''#667eea'' | substantive \<Rightarrow> ''#764ba2''
               | evidence \<Rightarrow> ''#f093fb'' | timing \<Rightarrow> ''#4facfe'')"

definition getBranchTypeIcon :: "branch_type \<Rightarrow> glyph" where
  "getBranchTypeIcon ty =
     (case ty of procedural \<Rightarrow> Scales | substantive \<Rightarrow> Clipboard
               | evidence \<Rightarrow> MagnifyingGlass | timing \<Rightarrow> AlarmClock)"

text \<open>
  \<^verbatim>\<open>Array.prototype.sort\<close> with a comparator: the language fixes the result, not the
  algorithm.  The sort is stable, and \<^verbatim>\<open>cmp a b \<le> 0\<close> keeps \<^verbatim>\<open>a\<close> before \<^verbatim>\<open>b\<close>.  An
  insertion sort from the right gives that result.  The method sorts the array it is
  called on, in place, and returns that same array.
\<close>

fun insert_cmp :: "('a \<Rightarrow> 'a \<Rightarrow> real) \<Rightarrow> 'a \<Rightarrow> 'a list \<Rightarrow> 'a list" where
  "insert_cmp cmp a [] = [a]"
| "insert_cmp cmp a (b # bs) =
     (if cmp a b \<le> 0 then a # b # bs else b # insert_cmp cmp a bs)"

definition Array_sort :: "('a \<Rightarrow> 'a \<Rightarrow> real) \<Rightarrow> 'a list \<Rightarrow> 'a list" where
  "Array_sort cmp xs = foldr (insert_cmp cmp) xs []"

record BranchItem =
  item_key :: string
  borderLeftColor :: string
  branch_icon :: glyph
  branch_type_shown :: branch_type
  criticality_shown :: real
  condition_shown :: string
  alternatives_count :: nat
  alternatives_shown :: "string list"

datatype branch_view = NoBranches string | BranchItems "BranchItem list"

definition render_item :: "BranchPoint \<Rightarrow> BranchItem" where
  "render_item bp =
     \<lparr> item_key = branch_id bp,
       borderLeftColor = getBranchTypeColor (branch_type bp),
       branch_icon = getBranchTypeIcon (branch_type bp),
       branch_type_shown = branch_type bp,
       criticality_shown = criticality_score bp,
       condition_shown = condition bp,
       alternatives_count = length (alternatives bp),
       alternatives_shown = alternatives bp \<rparr>"

text \<open>
  The component is called with the array held in the \<^verbatim>\<open>branchPoints\<close> property.  Since
  \<^verbatim>\<open>sort\<close> works in place, rendering is a state transformer on that array: the result
  is the view together with the content of the array afterwards.
\<close>

definition BranchPointHighlighter :: "BranchPoint list \<Rightarrow> branch_view \<times> BranchPoint list" where
  "BranchPointHighlighter branchPoints =
     (if length branchPoints = 0
      then (NoBranches ''No branch points detected in this narrative.'', branchPoints)
      else
        let ordered = Array_sort (\<lambda>a b. criticality_score b - criticality_score a) branchPoints
        in (BranchItems (map render_item ordered), ordered))"


section \<open>LogicTreeVisualization\<close>

record Node =
  idN :: string
  labelN :: string
  criticalityN :: real
  typeN :: branch_type
  xN :: real
  yN :: real

record Link =
  sourceL :: string
  targetL :: string
  strengthL :: real
  cascadeL :: bool

text \<open>
  One node per branch point.  The two calls of \<^verbatim>\<open>Math.random\<close> per node read a given
  sequence of numbers: node \<open>k\<close> takes the entries \<open>2 * k\<close> and \<open>2 * k + 1\<close>.
\<close>

definition mk_node :: "(nat \<Rightarrow> real) \<Rightarrow> nat \<Rightarrow> BranchPoint \<Rightarrow> Node" where
  "mk_node random k bp =
     \<lparr> idN = node_id bp,
       labelN = take 30 (condition bp) @ ''...'',
       criticalityN = criticality_score bp,
       typeN = branch_type bp,
       xN = random (2 * k) * (600 - 100) + 50,
       yN = random (2 * k + 1) * (400 - 100) + 50 \<rparr>"

definition nodes_of :: "(nat \<Rightarrow> real) \<Rightarrow> BranchPoint list \<Rightarrow> Node list" where
  "nodes_of random branchPoints =
     map (\<lambda>(k, bp). mk_node random k bp) (enumerate 0 branchPoints)"

text \<open>
  The links: each dependency is mapped to a link or to \<^verbatim>\<open>null\<close> (here \<open>None\<close>), and the
  \<^verbatim>\<open>null\<close>s are filtered out.
\<close>

definition link_of :: "Node list \<Rightarrow> Dependency \<Rightarrow> Link option" where
  "link_of nodes dep =
     (case (find (\<lambda>n. idN n = source_node_id dep) nodes,
            find (\<lambda>n. idN n = target_node_id dep) nodes) of
        (Some source, Some target) \<Rightarrow>
          Some \<lparr> sourceL = idN source, targetL = idN target,
                 strengthL = strength dep, cascadeL = cascade_potential dep \<rparr>
      | _ \<Rightarrow> None)"

definition links_of :: "Node list \<Rightarrow> Dependency list \<Rightarrow> Link list" where
  "links_of nodes dependencies =
     map the (filter (\<lambda>link. link \<noteq> None) (map (link_of nodes) dependencies))"

text \<open>
  The drawing: a group of lines, one per link, a group of circles and a group of
  labels, one each per node.  Every element carries its datum and the attributes the
  component sets; positions are set later by the ticks of the force simulation, which
  belongs to the visualisation library and is not part of the model.
\<close>

record LineElem =
  line_datum :: Link
  stroke :: string
  stroke_width :: real
  stroke_opacity :: real

record CircleElem =
  circle_datum :: Node
  radius :: nat
  fill :: string
  circle_stroke :: string
  circle_stroke_width :: nat
  opacity :: real

record LabelElem =
  label_datum :: Node
  label_text :: string
  font_size :: nat
  dy :: nat
  label_fill :: string

datatype tree_elem =
    LineGroup "LineElem list"
  | CircleGroup "CircleElem list"
  | LabelGroup "LabelElem list"

definition draw_link :: "Link \<Rightarrow> LineElem" where
  "draw_link d =
     \<lparr> line_datum = d,
       stroke = (if cascadeL d then ''#ff4444'' else ''#999''),
       stroke_width = strengthL d * 3,
       stroke_opacity = 0.6 \<rparr>"

definition draw_node :: "Node \<Rightarrow> CircleElem" where
  "draw_node d =
     \<lparr> circle_datum = d,
       radius = 20,
       fill = getBranchTypeColor (typeN d),
       circle_stroke = ''#fff'',
       circle_stroke_width = 2,
       opacity = 0.5 + (criticalityN d * 0.5) \<rparr>"

definition draw_label :: "Node \<Rightarrow> LabelElem" where
  "draw_label d =
     \<lparr> label_datum = d, label_text = labelN d, font_size = 10, dy = 35,
       label_fill = ''#333'' \<rparr>"

definition LogicTree_effect ::
    "(nat \<Rightarrow> real) \<Rightarrow> BranchPoint list \<Rightarrow> Dependency list \<Rightarrow> tree_elem svg \<Rightarrow> tree_elem svg" where
  "LogicTree_effect random branchPoints dependencies svg =
     (if length branchPoints = 0 then svg
      else
        let nodes = nodes_of random branchPoints;
            links = links_of nodes dependencies
        in \<lparr> svg_width = Some 600, svg_height = Some 400,
             svg_children =
               [LineGroup (map draw_link links),
                CircleGroup (map draw_node nodes),
                LabelGroup (map draw_label nodes)] \<rparr>)"

fun lines_in :: "tree_elem list \<Rightarrow> LineElem list" where
  "lines_in [] = []"
| "lines_in (LineGroup ls # es) = ls @ lines_in es"
| "lines_in (e # es) = lines_in es"

section \<open>CounterfactualDemo: the orchestrator\<close>

text \<open>
  The text of the input field is a JavaScript string, a sequence of 16-bit code units.
  \<^verbatim>\<open>String.prototype.trim\<close> removes from both ends the code units that are white space
  or line terminators in the language's grammar.
\<close>

type_synonym utf16 = "16 word list"

definition isWhiteSpace :: "16 word \<Rightarrow> bool" where
  "isWhiteSpace c \<longleftrightarrow>
     c \<in> set [0x0009, 0x000A, 0x000B, 0x000C, 0x000D, 0x0020, 0x00A0, 0x1680,
              0x2000, 0x2001, 0x2002, 0x2003, 0x2004, 0x2005, 0x2006, 0x2007,
              0x2008, 0x2009, 0x200A, 0x2028, 0x2029, 0x202F, 0x205F, 0x3000, 0xFEFF]"

definition trim :: "utf16 \<Rightarrow> utf16" where
  "trim s = rev (dropWhile isWhiteSpace (rev (dropWhile isWhiteSpace s)))"

record AttorneyReferral =
  triggered :: bool
  reason :: "string option"
  referral_links :: "string list"

record CounterfactualAnalysis =
  analysis_id :: string
  document_id :: string
  branch_points :: "BranchPoint list"
  dependencies :: "Dependency list"
  cascades :: "Cascade list"
  complexity_score :: real
  attorney_referral :: AttorneyReferral
  educational_disclaimer :: string

text \<open>
  The caught error is untyped (\<^verbatim>\<open>err: any\<close>), and so is what is read from it: the body
  of a rejected response is whatever JSON value the server sent.  An object is given by
  its members in order; where a name is repeated the last member counts.
\<close>

datatype json =
    JNull
  | JBool bool
  | JNum real
  | JStr string
  | JArr "json list"
  | JObj "(string \<times> json) list"

text \<open>The truthiness of a value: what \<^verbatim>\<open>||\<close> and \<^verbatim>\<open>&&\<close> test.\<close>

fun truthy :: "json \<Rightarrow> bool" where
  "truthy JNull = False"
| "truthy (JBool b) = b"
| "truthy (JNum n) = (n \<noteq> 0)"
| "truthy (JStr s) = (s \<noteq> [])"
| "truthy (JArr vs) = True"
| "truthy (JObj ms) = True"

text \<open>
  The five state variables of the component.  The error message is declared as a string
  or \<^verbatim>\<open>null\<close> (here \<open>None\<close>), but the handler stores an untyped value in it, so the
  variable holds any value.
\<close>

record UiState =
  inputText :: utf16
  analysis :: "CounterfactualAnalysis option"
  loading :: bool
  error :: "json option"
  showAttorneyModal :: bool

text \<open>The bodies of the two requests; the extracted graph is opaque to the frontend.\<close>

record ExtractOptions =
  extract_legal_implications :: bool
  include_confidence :: bool

record ExtractBody =
  narrative :: utf16
  extract_options :: ExtractOptions

record AnalyzeOptions =
  include_visualizations :: bool
  max_branch_points :: nat
  max_cascades :: nat
  complexity_threshold :: real

record 'cir AnalyzeBody =
  cir_graph :: 'cir
  analyze_options :: AnalyzeOptions

text \<open>
  What a rejected request throws: an error whose \<^verbatim>\<open>response\<close> may be missing (no answer
  came), and whose response may lack the \<^verbatim>\<open>data\<close>; the data is the body of the answer.
\<close>

record ErrResponse =
  data :: "json option"

record AxiosError =
  response :: "ErrResponse option"

text \<open>
  The backend, as far as one submission sees it: each request, given its address and
  body, is either rejected with an error or answered with a response body.
\<close>

record 'cir Backend =
  extract_api :: "string \<Rightarrow> ExtractBody \<Rightarrow> AxiosError + 'cir"
  analyze_api :: "string \<Rightarrow> 'cir AnalyzeBody \<Rightarrow> AxiosError + CounterfactualAnalysis"

text \<open>
  Everything the handler does to the outside is recorded in order: the requests it
  sends, the calls of the state setters, the line written to the console.
\<close>

datatype 'cir effect =
    Post_extract string ExtractBody
  | Post_analyze string "'cir AnalyzeBody"
  | SetError "json option"
  | SetLoading bool
  | SetAnalysis CounterfactualAnalysis
  | SetShowAttorneyModal bool
  | ConsoleError AxiosError

record 'cir World =
  ui :: UiState
  trace :: "'cir effect list"

definition setError :: "json option \<Rightarrow> 'cir World \<Rightarrow> 'cir World" where
  "setError e w = w\<lparr> ui := (ui w)\<lparr> error := e \<rparr>, trace := trace w @ [SetError e] \<rparr>"

definition setLoading :: "bool \<Rightarrow> 'cir World \<Rightarrow> 'cir World" where
  "setLoading b w = w\<lparr> ui := (ui w)\<lparr> loading := b \<rparr>, trace := trace w @ [SetLoading b] \<rparr>"

definition setAnalysis :: "CounterfactualAnalysis \<Rightarrow> 'cir World \<Rightarrow> 'cir World" where
  "setAnalysis r w =
     w\<lparr> ui := (ui w)\<lparr> analysis := Some r \<rparr>, trace := trace w @ [SetAnalysis r] \<rparr>"

definition setShowAttorneyModal :: "bool \<Rightarrow> 'cir World \<Rightarrow> 'cir World" where
  "setShowAttorneyModal b w =
     w\<lparr> ui := (ui w)\<lparr> showAttorneyModal := b \<rparr>,
        trace := trace w @ [SetShowAttorneyModal b] \<rparr>"

definition console_error :: "AxiosError \<Rightarrow> 'cir World \<Rightarrow> 'cir World" where
  "console_error err w = w\<lparr> trace := trace w @ [ConsoleError err] \<rparr>"

definition post_extract ::
    "'cir Backend \<Rightarrow> string \<Rightarrow> ExtractBody \<Rightarrow> 'cir World \<Rightarrow> (AxiosError + 'cir) \<times> 'cir World" where
  "post_extract backend url body w =
     (extract_api backend url body, w\<lparr> trace := trace w @ [Post_extract url body] \<rparr>)"

definition post_analyze ::
    "'cir Backend \<Rightarrow> string \<Rightarrow> 'cir AnalyzeBody \<Rightarrow> 'cir World
      \<Rightarrow> (AxiosError + CounterfactualAnalysis) \<times> 'cir World" where
  "post_analyze backend url body w =
     (analyze_api backend url body, w\<lparr> trace := trace w @ [Post_analyze url body] \<rparr>)"

text \<open>
  Reading the property \<^verbatim>\<open>detail\<close> of a value: an object has it when one of its members
  is named so; \<^verbatim>\<open>null\<close> stops the optional chain, and on any other value the property
  is \<^verbatim>\<open>undefined\<close> (here \<open>None\<close>).
\<close>

definition get_detail :: "json \<Rightarrow> json option" where
  "get_detail v = (case v of JObj ms \<Rightarrow> map_of (rev ms) ''detail'' | _ \<Rightarrow> None)"

text \<open>\<^verbatim>\<open>err.response?.data?.detail\<close>: the optional chain.\<close>

definition err_detail :: "AxiosError \<Rightarrow> json option" where
  "err_detail err =
     (case response err of
        None \<Rightarrow> None
      | Some r \<Rightarrow> (case data r of None \<Rightarrow> None | Some d \<Rightarrow> get_detail d))"

text \<open>
  \<^verbatim>\<open>a || b\<close>: the left operand when it is truthy, else the right one; \<^verbatim>\<open>undefined\<close> is
  falsy.
\<close>

definition or_else :: "json option \<Rightarrow> json \<Rightarrow> json" where
  "or_else a b = (case a of None \<Rightarrow> b | Some v \<Rightarrow> if truthy v then v else b)"

definition validation_message :: string where
  "validation_message = ''Please enter a legal narrative to analyze''"

definition generic_message :: string where
  "generic_message = ''Analysis failed. Please try again.''"

definition extract_body :: "utf16 \<Rightarrow> ExtractBody" where
  "extract_body text =
     \<lparr> narrative = text,
       extract_options = \<lparr> extract_legal_implications = True, include_confidence = True \<rparr> \<rparr>"

definition analyze_body :: "'cir \<Rightarrow> 'cir AnalyzeBody" where
  "analyze_body cir =
     \<lparr> cir_graph = cir,
       analyze_options = \<lparr> include_visualizations = True, max_branch_points = 10,
                           max_cascades = 5, complexity_threshold = 0.7 \<rparr> \<rparr>"

definition catch_block :: "AxiosError \<Rightarrow> 'cir World \<Rightarrow> 'cir World" where
  "catch_block err w =
     console_error err
       (setError (Some (or_else (err_detail err) (JStr generic_message))) w)"

definition try_block :: "string \<Rightarrow> 'cir Backend \<Rightarrow> utf16 \<Rightarrow> 'cir World \<Rightarrow> 'cir World" where
  "try_block API_URL backend text w =
     (case post_extract backend (API_URL @ ''/api/cir/extract'') (extract_body text) w of
        (Inl err, w1) \<Rightarrow> catch_block err w1
      | (Inr cirResponse, w1) \<Rightarrow>
          (case post_analyze backend (API_URL @ ''/api/counterfactual/analyze'')
                  (analyze_body cirResponse) w1 of
             (Inl err, w2) \<Rightarrow> catch_block err w2
           | (Inr result, w2) \<Rightarrow>
               let w3 = setAnalysis result w2
               in if triggered (attorney_referral result)
                  then setShowAttorneyModal True w3 else w3))"

text \<open>
  The handler of the submit button.  The \<^verbatim>\<open>finally\<close> clause runs after the \<^verbatim>\<open>try\<close>
  block and after the \<^verbatim>\<open>catch\<close> block alike; the early return of the validation is
  outside the \<^verbatim>\<open>try\<close> statement.  The body of the analysis response is taken at its
  declared type, so reading \<^verbatim>\<open>result.attorney_referral.triggered\<close> does not throw.
  The handler is suspended while each request is under way, and the model runs it
  without anything happening in between.  Of the state variables, the error, the busy
  flag and the result are written by this handler only; the modal flag is also cleared
  by the modal's close action, which may come while a request is under way.
\<close>

definition handleAnalyze :: "string \<Rightarrow> 'cir Backend \<Rightarrow> 'cir World \<Rightarrow> 'cir World" where
  "handleAnalyze API_URL backend w =
     (if trim (inputText (ui w)) = []
      then setError (Some (JStr validation_message)) w
      else
        let w1 = setLoading True w;
            w2 = setError None w1;
            w3 = try_block API_URL backend (inputText (ui w)) w2
        in setLoading False w3)"

text \<open>A submission starts with an empty record of effects.\<close>

definition submit :: "string \<Rightarrow> 'cir Backend \<Rightarrow> UiState \<Rightarrow> 'cir World" where
  "submit API_URL backend st = handleAnalyze API_URL backend \<lparr> ui = st, trace = [] \<rparr>"

definition requests :: "'cir effect list \<Rightarrow> 'cir effect list" where
  "requests es =
     filter (\<lambda>e. case e of Post_extract _ _ \<Rightarrow> True | Post_analyze _ _ \<Rightarrow> True | _ \<Rightarrow> False) es"

text \<open>
  The modal is rendered under \<^verbatim>\<open>showAttorneyModal && analysis\<close>.
\<close>

definition modal_visible :: "UiState \<Rightarrow> bool" where
  "modal_visible st \<longleftrightarrow> showAttorneyModal st \<and> analysis st \<noteq> None"

section \<open>Sample data\<close>

text \<open>Small inputs on which the properties below are exercised.\<close>

definition ex_bp1 :: BranchPoint where
  "ex_bp1 = \<lparr> branch_id = ''b1'', node_id = ''n1'', branch_type = procedural,
       condition = ''hearing missed'', alternatives = [''file a motion to continue''],
       criticality_score = 0.5 \<rparr>"

definition ex_bp2 :: BranchPoint where
  "ex_bp2 = \<lparr> branch_id = ''b2'', node_id = ''n2'', branch_type = timing,
       condition = ''notice received late'', alternatives = [],
       criticality_score = 0.9 \<rparr>"

definition ex_bp3 :: BranchPoint where
  "ex_bp3 = \<lparr> branch_id = ''b3'', node_id = ''n3'', branch_type = evidence,
       condition = ''hospital record'', alternatives = [''submit it'', ''withhold it''],
       criticality_score = 0.5 \<rparr>"


definition ex_cascade :: Cascade where
  "ex_cascade = \<lparr> cascade_id = ''c1'', initiating_branch_id = ''b1'',
       amplification_chain = [''n1'', ''n2''], severity_score = 1, preventable = True \<rparr>"

definition ex_dep_ok :: Dependency where
  "ex_dep_ok = \<lparr> dependency_id = ''d1'', source_node_id = ''n1'', target_node_id = ''n2'',
       strength = 0.8, cascade_potential = True \<rparr>"

definition ex_dep_dangling :: Dependency where
  "ex_dep_dangling = \<lparr> dependency_id = ''d2'', source_node_id = ''n1'',
       target_node_id = ''n9'', strength = 0.4, cascade_potential = False \<rparr>"

definition ex_result :: "bool \<Rightarrow> CounterfactualAnalysis" where
  "ex_result t = \<lparr> analysis_id = ''a1'', document_id = ''doc1'',
       branch_points = [ex_bp1, ex_bp2], dependencies = [ex_dep_ok],
       cascades = [ex_cascade], complexity_score = 0.8,
       attorney_referral = \<lparr> triggered = t, reason = None, referral_links = [] \<rparr>,
       educational_disclaimer = ''For education only.'' \<rparr>"

definition ex_state :: UiState where
  "ex_state = \<lparr> inputText = [0x49, 0x20, 0x77, 0x61, 0x73], analysis = None,
       loading = False, error = None, showAttorneyModal = False \<rparr>"

text \<open>A state that holds an earlier result, with the modal still open.\<close>

definition ex_state_held :: UiState where
  "ex_state_held = ex_state\<lparr> analysis := Some (ex_result True), showAttorneyModal := True \<rparr>"

text \<open>A state whose input is a space, a tab and an ideographic space.\<close>

definition ex_state_blank :: UiState where
  "ex_state_blank = ex_state_held\<lparr> inputText := [0x0020, 0x0009, 0x3000] \<rparr>"



text \<open>A backend that answers both requests, and backends that reject one of them.\<close>

definition ex_backend_ok :: "bool \<Rightarrow> nat Backend" where
  "ex_backend_ok t =
     \<lparr> extract_api = (\<lambda>url body. Inr 42), analyze_api = (\<lambda>url body. Inr (ex_result t)) \<rparr>"



section \<open>Properties of RiskHeatmap\<close>

lemma fold_max_eq_Max:
  fixes s :: real
  shows "fold max ss s = Max (set (s # ss))"
  by (rule Max.set_eq_fold [symmetric])

lemma maxSeverity_filter:
  "maxSeverity (filter (\<lambda>c. initiating_branch_id c = bid) cs)
     = spec_maxCascadeSeverity cs bid"
proof (cases "filter (\<lambda>c. initiating_branch_id c = bid) cs")
  case Nil
  then have "{c \<in> set cs. initiating_branch_id c = bid} = {}"
    by (auto simp: filter_empty_conv)
  with Nil show ?thesis
    by (simp add: maxSeverity_def spec_maxCascadeSeverity_def)
next
  case (Cons k ks)
  have set_eq: "{c \<in> set cs. initiating_branch_id c = bid}
                  = set (filter (\<lambda>c. initiating_branch_id c = bid) cs)"
    by auto
  have "maxSeverity (k # ks) = Max (severity_score ` set (k # ks))"
    unfolding maxSeverity_def by (simp add: fold_max_eq_Max)
  with Cons show ?thesis
    unfolding spec_maxCascadeSeverity_def set_eq by simp
qed

lemma risk_riskItem:
  "risk (riskItem cs bp)
     = 0.6 * criticality_score bp
       + 0.4 * spec_maxCascadeSeverity cs (branch_id bp)"
  by (simp add: riskItem_def Let_def maxSeverity_filter)

text \<open>
  Claim C1.  For every branch point the heatmap's combined risk is
  0.6 * criticality_score + 0.4 * maxCascadeSeverity, with maxCascadeSeverity the
  greatest severity_score among the cs whose initiating_branch_id is the branch
  point's branch_id and 0 when there is none; a branch point without such a cascade
  has combined risk criticality_score * 0.6.  The risk data has one entry per branch
  point, in input order.
\<close>

theorem combinedRisk_formula:
  "map risk (riskData bps cs)
     = map (\<lambda>bp. 0.6 * criticality_score bp
                  + 0.4 * spec_maxCascadeSeverity cs (branch_id bp)) bps
   \<and> (\<forall>bp. (\<forall>c \<in> set cs. initiating_branch_id c \<noteq> branch_id bp)
        \<longrightarrow> risk (riskItem cs bp) = criticality_score bp * 0.6)"
proof (intro conjI allI impI)
  show "map risk (riskData bps cs)
     = map (\<lambda>bp. 0.6 * criticality_score bp
                  + 0.4 * spec_maxCascadeSeverity cs (branch_id bp)) bps"
    by (simp add: riskData_def risk_riskItem)
next
  fix bp :: BranchPoint
  assume none: "\<forall>c \<in> set cs. initiating_branch_id c \<noteq> branch_id bp"
  then have "spec_maxCascadeSeverity cs (branch_id bp) = 0"
    by (auto simp: spec_maxCascadeSeverity_def)
  then show "risk (riskItem cs bp) = criticality_score bp * 0.6"
    by (simp add: risk_riskItem)
qed

theorem combinedRisk_formula_witness:
  "initiating_branch_id ex_cascade \<noteq> branch_id ex_bp2
   \<and> risk (riskItem [ex_cascade] ex_bp2) = criticality_score ex_bp2 * 0.6
   \<and> map risk (riskData [ex_bp1, ex_bp2] [ex_cascade]) = [0.7, 0.54]"
proof -
  have none: "\<forall>c \<in> set [ex_cascade]. initiating_branch_id c \<noteq> branch_id ex_bp2"
    by (simp add: ex_cascade_def ex_bp2_def)
  have both: "map risk (riskData [ex_bp1, ex_bp2] [ex_cascade])
       = map (\<lambda>bp. 0.6 * criticality_score bp
                    + 0.4 * spec_maxCascadeSeverity [ex_cascade] (branch_id bp)) [ex_bp1, ex_bp2]
     \<and> (\<forall>bp. (\<forall>c \<in> set [ex_cascade]. initiating_branch_id c \<noteq> branch_id bp)
          \<longrightarrow> risk (riskItem [ex_cascade] bp) = criticality_score bp * 0.6)"
    by (rule combinedRisk_formula)
  from both none have "risk (riskItem [ex_cascade] ex_bp2) = criticality_score ex_bp2 * 0.6"
    by blast
  moreover from both have "map risk (riskData [ex_bp1, ex_bp2] [ex_cascade]) = [0.7, 0.54]"
    by (simp add: ex_bp1_def ex_bp2_def ex_cascade_def spec_maxCascadeSeverity_def)
  moreover from none have "initiating_branch_id ex_cascade \<noteq> branch_id ex_bp2"
    by simp
  ultimately show ?thesis by blast
qed

section \<open>Properties of the empty heatmap\<close>

text \<open>
  Claim C10.  With an empty list of branch points the effect of RiskHeatmap returns at
  once and leaves the \<open>svg\<close> as it found it; on a fresh \<open>svg\<close> there is no cell, no
  row label and no legend.  What the component renders beside the \<open>svg\<close> is the same
  two paragraphs as for any input, with no message for the empty case, whereas
  BranchPointHighlighter renders one.
\<close>

theorem RiskHeatmap_empty_draws_nothing:
  "RiskHeatmap_effect [] cs svg = svg
   \<and> svg_children (RiskHeatmap_effect [] cs empty_svg) = []
   \<and> RiskHeatmap_jsx [] cs
       = [SvgHost, InfoParagraph ''Risk Score Formula:'', InfoParagraph ''Color Guide:'']
   \<and> fst (BranchPointHighlighter [])
       = NoBranches ''No branch points detected in this narrative.''"
  by (simp add: RiskHeatmap_effect_def empty_svg_def RiskHeatmap_jsx_def
        BranchPointHighlighter_def)

text \<open>
  For contrast: with at least one branch point, the heatmap draws at least one row and
  the legend after the rows.
\<close>

lemma push_group_nonempty: "push_group item groups \<noteq> []"
  by (cases groups) (auto split: if_splits)

lemma foldl_push_group_nonempty:
  "groups \<noteq> [] \<Longrightarrow> foldl (\<lambda>groups item. push_group item groups) groups items \<noteq> []"
  by (induction items arbitrary: groups) (simp_all add: push_group_nonempty)

lemma typeGroups_nonempty: "items \<noteq> [] \<Longrightarrow> typeGroups items \<noteq> []"
  by (cases items) (simp_all add: typeGroups_def foldl_push_group_nonempty)

lemma draw_row_nonempty: "draw_row typeIdx row \<noteq> []"
  by (simp add: draw_row_def)

lemma RiskHeatmap_nonempty_draws_legend:
  assumes "bps \<noteq> []"
  shows "\<exists>cells. svg_children (RiskHeatmap_effect bps cs svg) = cells @ draw_legend
               \<and> cells \<noteq> []"
proof -
  let ?groups = "typeGroups (riskData bps cs)"
  let ?cells = "concat (map (\<lambda>(typeIdx, row). draw_row typeIdx row) (enumerate 0 ?groups))"
  from assms have "riskData bps cs \<noteq> []"
    by (simp add: riskData_def)
  then obtain g gs where groups: "?groups = g # gs"
    using typeGroups_nonempty by (cases ?groups) auto
  have "?cells \<noteq> []"
    unfolding groups by (simp add: draw_row_nonempty)
  moreover from assms have "svg_children (RiskHeatmap_effect bps cs svg) = ?cells @ draw_legend"
    by (simp add: RiskHeatmap_effect_def Let_def)
  ultimately show ?thesis by blast
qed

section \<open>Properties of BranchPointHighlighter\<close>

lemma insert_cmp_insort_key:
  "insert_cmp (\<lambda>a b. f b - f a) x ys = insort_key (\<lambda>b. - f b) x ys"
  by (induction ys) auto

lemma Array_sort_sort_key:
  "Array_sort (\<lambda>a b. f b - f a) xs = sort_key (\<lambda>b. - f b) xs"
  by (induction xs) (simp_all add: Array_sort_def insert_cmp_insort_key)

lemma Array_sort_descending:
  "sorted_wrt (\<lambda>a b. f a \<ge> f b) (Array_sort (\<lambda>a b. f b - f a) xs)"
proof -
  have "sorted (map (\<lambda>b. - f b) (sort_key (\<lambda>b. - f b) xs))"
    by (rule sorted_sort_key)
  then show ?thesis
    by (simp add: Array_sort_sort_key sorted_map)
qed

lemma Array_sort_mset: "mset (Array_sort (\<lambda>a b. f b - f a) xs) = mset xs"
  by (simp add: Array_sort_sort_key)

lemma Array_sort_stable:
  "filter (\<lambda>y. f y = k) (Array_sort (\<lambda>a b. f b - f a) xs) = filter (\<lambda>y. f y = k) xs"
proof -
  have "filter (\<lambda>y. - f y = - k) (sort_key (\<lambda>b. - f b) xs) = filter (\<lambda>y. - f y = - k) xs"
    by (rule sort_key_stable)
  then show ?thesis by (simp add: Array_sort_sort_key)
qed

text \<open>
  Claim C7.  For the empty list the component renders the explicit message that no
  branch point was found.  For any other list it renders one item per branch point, in
  non-increasing order of criticality_score; the items are those of the input (as a
  multiset), and branch points of equal score keep the order they have in the input.
\<close>

theorem BranchPointHighlighter_order:
  "fst (BranchPointHighlighter []) = NoBranches ''No branch points detected in this narrative.''
   \<and> (bps \<noteq> [] \<longrightarrow>
        (\<exists>ordered.
            fst (BranchPointHighlighter bps) = BranchItems (map render_item ordered)
          \<and> sorted_wrt (\<lambda>a b. criticality_score a \<ge> criticality_score b) ordered
          \<and> sorted_wrt (\<lambda>a b. criticality_shown a \<ge> criticality_shown b)
               (map render_item ordered)
          \<and> mset ordered = mset bps
          \<and> (\<forall>k. filter (\<lambda>bp. criticality_score bp = k) ordered
                   = filter (\<lambda>bp. criticality_score bp = k) bps)))"
proof (intro conjI impI)
  show "fst (BranchPointHighlighter [])
          = NoBranches ''No branch points detected in this narrative.''"
    by (simp add: BranchPointHighlighter_def)
next
  assume nonempty: "bps \<noteq> []"
  let ?ordered = "Array_sort (\<lambda>a b. criticality_score b - criticality_score a) bps"
  have view: "fst (BranchPointHighlighter bps) = BranchItems (map render_item ?ordered)"
    using nonempty by (simp add: BranchPointHighlighter_def Let_def)
  have desc: "sorted_wrt (\<lambda>a b. criticality_score a \<ge> criticality_score b) ?ordered"
    by (rule Array_sort_descending)
  then have shown: "sorted_wrt (\<lambda>a b. criticality_shown a \<ge> criticality_shown b)
                      (map render_item ?ordered)"
    by (simp add: sorted_wrt_map render_item_def)
  have perm: "mset ?ordered = mset bps"
    by (rule Array_sort_mset)
  have stable: "\<forall>k. filter (\<lambda>bp. criticality_score bp = k) ?ordered
                    = filter (\<lambda>bp. criticality_score bp = k) bps"
    by (simp add: Array_sort_stable)
  from view desc shown perm stable
  show "\<exists>ordered.
            fst (BranchPointHighlighter bps) = BranchItems (map render_item ordered)
          \<and> sorted_wrt (\<lambda>a b. criticality_score a \<ge> criticality_score b) ordered
          \<and> sorted_wrt (\<lambda>a b. criticality_shown a \<ge> criticality_shown b)
               (map render_item ordered)
          \<and> mset ordered = mset bps
          \<and> (\<forall>k. filter (\<lambda>bp. criticality_score bp = k) ordered
                   = filter (\<lambda>bp. criticality_score bp = k) bps)"
    by blast
qed

text \<open>
  The claim at three branch points of scores 0.5, 0.9 and 0.5: the second comes first,
  and the two of equal score follow in their input order.
\<close>

theorem BranchPointHighlighter_order_witness:
  "[ex_bp1, ex_bp2, ex_bp3] \<noteq> []
   \<and> fst (BranchPointHighlighter [ex_bp1, ex_bp2, ex_bp3])
       = BranchItems (map render_item [ex_bp2, ex_bp1, ex_bp3])
   \<and> (\<exists>ordered.
          fst (BranchPointHighlighter [ex_bp1, ex_bp2, ex_bp3])
            = BranchItems (map render_item ordered)
        \<and> sorted_wrt (\<lambda>a b. criticality_score a \<ge> criticality_score b) ordered
        \<and> sorted_wrt (\<lambda>a b. criticality_shown a \<ge> criticality_shown b)
             (map render_item ordered)
        \<and> mset ordered = mset [ex_bp1, ex_bp2, ex_bp3]
        \<and> (\<forall>k. filter (\<lambda>bp. criticality_score bp = k) ordered
                 = filter (\<lambda>bp. criticality_score bp = k) [ex_bp1, ex_bp2, ex_bp3]))"
proof -
  have "fst (BranchPointHighlighter [ex_bp1, ex_bp2, ex_bp3])
          = BranchItems (map render_item [ex_bp2, ex_bp1, ex_bp3])"
    by (simp add: BranchPointHighlighter_def Array_sort_def Let_def
          ex_bp1_def ex_bp2_def ex_bp3_def)
  then show ?thesis
    using BranchPointHighlighter_order [of "[ex_bp1, ex_bp2, ex_bp3]"] by blast
qed

text \<open>
  Claim C2.  The claim is that no rendering component changes the lists it receives.
  BranchPointHighlighter sorts the array it is given in place: rendered with two branch
  points of scores 0.5 and 0.9, it leaves the array in the opposite order.
\<close>

theorem BranchPointHighlighter_reorders_its_input:
  "snd (BranchPointHighlighter [ex_bp1, ex_bp2]) = [ex_bp2, ex_bp1]
   \<and> snd (BranchPointHighlighter [ex_bp1, ex_bp2]) \<noteq> [ex_bp1, ex_bp2]"
  by (simp add: BranchPointHighlighter_def Array_sort_def Let_def ex_bp1_def ex_bp2_def)

section \<open>Properties of LogicTreeVisualization\<close>

lemma map_idN_nodes_of: "map idN (nodes_of random bps) = map node_id bps"
proof -
  have "map idN (nodes_of random bps) = map (node_id \<circ> snd) (enumerate 0 bps)"
    by (simp add: nodes_of_def mk_node_def comp_def case_prod_unfold)
  also have "\<dots> = map node_id (map snd (enumerate 0 bps))"
    by (simp only: map_map)
  also have "\<dots> = map node_id bps"
    by (simp only: map_snd_enumerate)
  finally show ?thesis .
qed

lemma idN_nodes_of: "idN ` set (nodes_of random bps) = node_id ` set bps"
proof -
  have "set (map idN (nodes_of random bps)) = set (map node_id bps)"
    by (simp only: map_idN_nodes_of)
  then show ?thesis by simp
qed

lemma find_idN_None: "find (\<lambda>n. idN n = s) nodes = None \<longleftrightarrow> s \<notin> idN ` set nodes"
  by (auto simp: find_None_iff)

lemma find_idN_Some: "find (\<lambda>n. idN n = s) nodes = Some n \<Longrightarrow> idN n = s \<and> s \<in> idN ` set nodes"
  by (auto simp: find_Some_iff)

lemma link_of_resolves:
  "link_of nodes dep =
     (if source_node_id dep \<in> idN ` set nodes \<and> target_node_id dep \<in> idN ` set nodes
      then Some \<lparr> sourceL = source_node_id dep, targetL = target_node_id dep,
                  strengthL = strength dep, cascadeL = cascade_potential dep \<rparr>
      else None)"
proof (cases "find (\<lambda>n. idN n = source_node_id dep) nodes")
  case None
  then show ?thesis
    by (simp add: link_of_def find_idN_None [symmetric])
next
  case src: (Some s)
  show ?thesis
  proof (cases "find (\<lambda>n. idN n = target_node_id dep) nodes")
    case None
    with src show ?thesis
      by (simp add: link_of_def find_idN_None [symmetric])
  next
    case tgt: (Some t)
    from find_idN_Some [OF src] find_idN_Some [OF tgt] src tgt show ?thesis
      by (simp add: link_of_def)
  qed
qed

lemma links_of_filter:
  "links_of nodes deps =
     map (\<lambda>d. \<lparr> sourceL = source_node_id d, targetL = target_node_id d,
                strengthL = strength d, cascadeL = cascade_potential d \<rparr>)
         (filter (\<lambda>d. source_node_id d \<in> idN ` set nodes \<and> target_node_id d \<in> idN ` set nodes)
                 deps)"
  unfolding links_of_def by (induction deps) (simp_all add: link_of_resolves)

text \<open>
  Claim C8.  The links are exactly the dependencies whose source and target are both the
  \<open>node_id\<close> of some branch point, one link each and in the order of the dependencies;
  a dependency with an unmatched end gives no link, and the function is total, so nothing
  is raised.  The lines drawn are one per link; with no branch point nothing is drawn.
\<close>

theorem unresolved_dependencies_dropped:
  "links_of (nodes_of random bps) deps =
     map (\<lambda>d. \<lparr> sourceL = source_node_id d, targetL = target_node_id d,
                strengthL = strength d, cascadeL = cascade_potential d \<rparr>)
         (filter (\<lambda>d. source_node_id d \<in> node_id ` set bps
                     \<and> target_node_id d \<in> node_id ` set bps) deps)
   \<and> (bps \<noteq> [] \<longrightarrow>
        lines_in (svg_children (LogicTree_effect random bps deps svg))
          = map draw_link (links_of (nodes_of random bps) deps))
   \<and> (bps = [] \<longrightarrow> LogicTree_effect random bps deps svg = svg)"
proof (intro conjI impI)
  show "links_of (nodes_of random bps) deps =
     map (\<lambda>d. \<lparr> sourceL = source_node_id d, targetL = target_node_id d,
                strengthL = strength d, cascadeL = cascade_potential d \<rparr>)
         (filter (\<lambda>d. source_node_id d \<in> node_id ` set bps
                     \<and> target_node_id d \<in> node_id ` set bps) deps)"
    by (simp only: links_of_filter idN_nodes_of)
next
  assume "bps \<noteq> []"
  then show "lines_in (svg_children (LogicTree_effect random bps deps svg))
          = map draw_link (links_of (nodes_of random bps) deps)"
    by (simp add: LogicTree_effect_def Let_def)
next
  assume "bps = []"
  then show "LogicTree_effect random bps deps svg = svg"
    by (simp add: LogicTree_effect_def)
qed

text \<open>
  The claim at two branch points and two dependencies, one of which points to a node
  that does not exist: one line is drawn.
\<close>

theorem unresolved_dependencies_dropped_witness:
  "[ex_bp1, ex_bp2] \<noteq> []
   \<and> lines_in (svg_children
        (LogicTree_effect (\<lambda>k. 0.5) [ex_bp1, ex_bp2] [ex_dep_ok, ex_dep_dangling] empty_svg))
       = [draw_link \<lparr> sourceL = ''n1'', targetL = ''n2'', strengthL = 0.8, cascadeL = True \<rparr>]
   \<and> LogicTree_effect (\<lambda>k. 0.5) [] [ex_dep_ok, ex_dep_dangling] empty_svg = empty_svg"
proof -
  have nonempty: "[ex_bp1, ex_bp2] \<noteq> []" by simp
  have "links_of (nodes_of (\<lambda>k. 0.5) [ex_bp1, ex_bp2]) [ex_dep_ok, ex_dep_dangling]
          = [\<lparr> sourceL = ''n1'', targetL = ''n2'', strengthL = 0.8, cascadeL = True \<rparr>]"
    using unresolved_dependencies_dropped
            [of "\<lambda>k. 0.5" "[ex_bp1, ex_bp2]" "[ex_dep_ok, ex_dep_dangling]" empty_svg]
    by (simp add: ex_bp1_def ex_bp2_def ex_dep_ok_def ex_dep_dangling_def)
  moreover have "lines_in (svg_children
        (LogicTree_effect (\<lambda>k. 0.5) [ex_bp1, ex_bp2] [ex_dep_ok, ex_dep_dangling] empty_svg))
       = map draw_link
           (links_of (nodes_of (\<lambda>k. 0.5) [ex_bp1, ex_bp2]) [ex_dep_ok, ex_dep_dangling])"
    using unresolved_dependencies_dropped
            [of "\<lambda>k. 0.5" "[ex_bp1, ex_bp2]" "[ex_dep_ok, ex_dep_dangling]" empty_svg] nonempty
    by blast
  moreover have "LogicTree_effect (\<lambda>k. 0.5) [] [ex_dep_ok, ex_dep_dangling] empty_svg = empty_svg"
    using unresolved_dependencies_dropped
            [of "\<lambda>k. 0.5" "[]" "[ex_dep_ok, ex_dep_dangling]" empty_svg]
    by blast
  ultimately show ?thesis by simp
qed



section \<open>Properties of the orchestrator\<close>

lemma trim_blank:
  assumes "\<forall>c \<in> set s. isWhiteSpace c"
  shows "trim s = []"
proof -
  from assms have blank: "dropWhile isWhiteSpace s = []"
    by simp
  show ?thesis unfolding trim_def blank by simp
qed

lemmas setters = setError_def setLoading_def setAnalysis_def setShowAttorneyModal_def
  console_error_def post_extract_def post_analyze_def

lemma submit_blank:
  assumes "trim (inputText st) = []"
  shows "submit API_URL backend st =
           \<lparr> ui = st\<lparr> error := Some (JStr validation_message) \<rparr>,
             trace = [SetError (Some (JStr validation_message))] \<rparr>"
  using assms by (simp add: submit_def handleAnalyze_def setError_def)

lemma submit_extract_fails:
  assumes "trim (inputText st) \<noteq> []"
    and "extract_api backend (API_URL @ ''/api/cir/extract'') (extract_body (inputText st)) = Inl err"
  shows "submit API_URL backend st =
           \<lparr> ui = st\<lparr> loading := False,
                       error := Some (or_else (err_detail err) (JStr generic_message)) \<rparr>,
             trace = [SetLoading True, SetError None,
                      Post_extract (API_URL @ ''/api/cir/extract'') (extract_body (inputText st)),
                      SetError (Some (or_else (err_detail err) (JStr generic_message))),
                      ConsoleError err, SetLoading False] \<rparr>"
  using assms
  by (simp add: submit_def handleAnalyze_def try_block_def catch_block_def setters Let_def)

lemma submit_analyze_fails:
  assumes "trim (inputText st) \<noteq> []"
    and "extract_api backend (API_URL @ ''/api/cir/extract'') (extract_body (inputText st)) = Inr cir"
    and "analyze_api backend (API_URL @ ''/api/counterfactual/analyze'') (analyze_body cir) = Inl err"
  shows "submit API_URL backend st =
           \<lparr> ui = st\<lparr> loading := False,
                       error := Some (or_else (err_detail err) (JStr generic_message)) \<rparr>,
             trace = [SetLoading True, SetError None,
                      Post_extract (API_URL @ ''/api/cir/extract'') (extract_body (inputText st)),
                      Post_analyze (API_URL @ ''/api/counterfactual/analyze'') (analyze_body cir),
                      SetError (Some (or_else (err_detail err) (JStr generic_message))),
                      ConsoleError err, SetLoading False] \<rparr>"
  using assms
  by (simp add: submit_def handleAnalyze_def try_block_def catch_block_def setters Let_def)

lemma submit_ok:
  assumes "trim (inputText st) \<noteq> []"
    and "extract_api backend (API_URL @ ''/api/cir/extract'') (extract_body (inputText st)) = Inr cir"
    and "analyze_api backend (API_URL @ ''/api/counterfactual/analyze'') (analyze_body cir) = Inr result"
  shows "submit API_URL backend st =
           \<lparr> ui = st\<lparr> loading := False, error := None, analysis := Some result,
                       showAttorneyModal :=
                         (triggered (attorney_referral result) \<or> showAttorneyModal st) \<rparr>,
             trace = [SetLoading True, SetError None,
                      Post_extract (API_URL @ ''/api/cir/extract'') (extract_body (inputText st)),
                      Post_analyze (API_URL @ ''/api/counterfactual/analyze'') (analyze_body cir),
                      SetAnalysis result]
                     @ (if triggered (attorney_referral result)
                        then [SetShowAttorneyModal True] else [])
                     @ [SetLoading False] \<rparr>"
  using assms
  by (simp add: submit_def handleAnalyze_def try_block_def catch_block_def setters Let_def)


lemma submit_error_None:
  assumes "error (ui (submit API_URL backend st)) = None"
  shows "\<exists>cir result.
           trim (inputText st) \<noteq> []
         \<and> extract_api backend (API_URL @ ''/api/cir/extract'') (extract_body (inputText st))
             = Inr cir
         \<and> analyze_api backend (API_URL @ ''/api/counterfactual/analyze'') (analyze_body cir)
             = Inr result"
proof (cases "trim (inputText st) = []")
  case True
  with assms show ?thesis by (simp add: submit_blank)
next
  case nonblank: False
  show ?thesis
  proof (cases "extract_api backend (API_URL @ ''/api/cir/extract'') (extract_body (inputText st))")
    case (Inl err)
    with nonblank assms show ?thesis by (simp add: submit_extract_fails)
  next
    case (Inr cir)
    show ?thesis
    proof (cases "analyze_api backend (API_URL @ ''/api/counterfactual/analyze'') (analyze_body cir)")
      case (Inl err)
      with nonblank Inr assms show ?thesis by (simp add: submit_analyze_fails)
    next
      case ok: (Inr result)
      with nonblank Inr show ?thesis by blast
    qed
  qed
qed

text \<open>
  Claim C3.  A successful submission, one that ends without an error message, sends
  exactly two requests, the extraction and then the analysis, and the \<open>cir_graph\<close> field
  of the second request's body is the body of the first request's response, unchanged.
\<close>

theorem second_call_embeds_first_response:
  assumes "error (ui (submit API_URL backend st)) = None"
  shows "\<exists>cir body.
           extract_api backend (API_URL @ ''/api/cir/extract'') (extract_body (inputText st))
             = Inr cir
         \<and> requests (trace (submit API_URL backend st))
             = [Post_extract (API_URL @ ''/api/cir/extract'') (extract_body (inputText st)),
                Post_analyze (API_URL @ ''/api/counterfactual/analyze'') body]
         \<and> cir_graph body = cir"
proof -
  from submit_error_None [OF assms] obtain cir result where
    nonblank: "trim (inputText st) \<noteq> []"
    and ex: "extract_api backend (API_URL @ ''/api/cir/extract'') (extract_body (inputText st))
             = Inr cir"
    and an: "analyze_api backend (API_URL @ ''/api/counterfactual/analyze'') (analyze_body cir)
             = Inr result"
    by blast
  have "requests (trace (submit API_URL backend st))
          = [Post_extract (API_URL @ ''/api/cir/extract'') (extract_body (inputText st)),
             Post_analyze (API_URL @ ''/api/counterfactual/analyze'') (analyze_body cir)]"
    by (simp add: submit_ok [OF nonblank ex an] requests_def)
  moreover have "cir_graph (analyze_body cir) = cir"
    by (simp add: analyze_body_def)
  ultimately show ?thesis using ex by blast
qed

lemma ex_state_nonblank: "trim (inputText ex_state) \<noteq> []"
  by (simp add: ex_state_def trim_def isWhiteSpace_def)

lemma ex_submit_ok_error:
  "error (ui (submit ''http://localhost:8000'' (ex_backend_ok t) ex_state)) = None"
  by (simp add: submit_ok [OF ex_state_nonblank, of _ _ 42 "ex_result t"] ex_backend_ok_def)

theorem second_call_embeds_first_response_witness:
  "error (ui (submit ''http://localhost:8000'' (ex_backend_ok True) ex_state)) = None
   \<and> (\<exists>cir body.
         extract_api (ex_backend_ok True) (''http://localhost:8000'' @ ''/api/cir/extract'')
             (extract_body (inputText ex_state)) = Inr cir
       \<and> requests (trace (submit ''http://localhost:8000'' (ex_backend_ok True) ex_state))
           = [Post_extract (''http://localhost:8000'' @ ''/api/cir/extract'')
                (extract_body (inputText ex_state)),
              Post_analyze (''http://localhost:8000'' @ ''/api/counterfactual/analyze'') body]
       \<and> cir_graph body = cir)"
  using second_call_embeds_first_response [OF ex_submit_ok_error [of True]]
        ex_submit_ok_error [of True]
  by blast

text \<open>
  Claim C5.  When the input text is empty or consists of white space only, submitting
  sends no request: the only effect is that the error message is set to the fixed
  validation message, and the held result and the busy flag stay as they were.
\<close>

theorem blank_input_rejected:
  assumes "\<forall>c \<in> set (inputText st). isWhiteSpace c"
  shows "trace (submit API_URL backend st) = [SetError (Some (JStr validation_message))]
       \<and> requests (trace (submit API_URL backend st)) = []
       \<and> error (ui (submit API_URL backend st)) = Some (JStr validation_message)
       \<and> analysis (ui (submit API_URL backend st)) = analysis st
       \<and> loading (ui (submit API_URL backend st)) = loading st"
  by (simp add: submit_blank [OF trim_blank [OF assms]] requests_def)

lemma ex_state_blank_white: "\<forall>c \<in> set (inputText ex_state_blank). isWhiteSpace c"
  by (simp add: ex_state_blank_def ex_state_held_def ex_state_def isWhiteSpace_def)

text \<open>
  The claim at an input made of a space, a tab and an ideographic space, in a state
  that holds an earlier result.
\<close>

theorem blank_input_rejected_witness:
  "inputText ex_state_blank = [0x0020, 0x0009, 0x3000]
   \<and> isWhiteSpace 0x0020 \<and> isWhiteSpace 0x0009 \<and> isWhiteSpace 0x3000
   \<and> trace (submit ''http://localhost:8000'' (ex_backend_ok True) ex_state_blank)
       = [SetError (Some (JStr validation_message))]
   \<and> error (ui (submit ''http://localhost:8000'' (ex_backend_ok True) ex_state_blank))
       = Some (JStr validation_message)
   \<and> analysis (ui (submit ''http://localhost:8000'' (ex_backend_ok True) ex_state_blank))
       = Some (ex_result True)
   \<and> loading (ui (submit ''http://localhost:8000'' (ex_backend_ok True) ex_state_blank)) = False"
  using blank_input_rejected [OF ex_state_blank_white,
          of "''http://localhost:8000''" "ex_backend_ok True"]
        ex_state_blank_white
  by (simp add: ex_state_blank_def ex_state_held_def ex_state_def isWhiteSpace_def)




lemma ex_state_held_nonblank: "trim (inputText ex_state_held) \<noteq> []"
  by (simp add: ex_state_held_def ex_state_def trim_def isWhiteSpace_def)






text \<open>
  Claim C6, as amended.  When both requests are answered, the handler applies the
  result and, if and only if the result's \<open>attorney_referral.triggered\<close> is true, opens
  the modal as its next effect; the only effect after that clears the busy flag.  The
  handler never closes the modal and does not touch it before the result is applied, so
  a result that does not trigger leaves the modal as it is: closed if it was closed,
  open if it was still open.
\<close>

theorem modal_opened_iff_triggered:
  assumes nonblank: "trim (inputText st) \<noteq> []"
    and ex: "extract_api backend (API_URL @ ''/api/cir/extract'') (extract_body (inputText st))
               = Inr cir"
    and an: "analyze_api backend (API_URL @ ''/api/counterfactual/analyze'') (analyze_body cir)
               = Inr result"
  shows "(\<exists>before.
            trace (submit API_URL backend st)
              = before @ [SetAnalysis result]
                @ (if triggered (attorney_referral result)
                   then [SetShowAttorneyModal True] else [])
                @ [SetLoading False]
          \<and> (\<forall>b. SetShowAttorneyModal b \<notin> set before)
          \<and> (\<forall>r. SetAnalysis r \<notin> set before))
       \<and> (SetShowAttorneyModal True \<in> set (trace (submit API_URL backend st))
            \<longleftrightarrow> triggered (attorney_referral result))
       \<and> SetShowAttorneyModal False \<notin> set (trace (submit API_URL backend st))"
proof -
  let ?before = "[SetLoading True, SetError None,
      Post_extract (API_URL @ ''/api/cir/extract'') (extract_body (inputText st)),
      Post_analyze (API_URL @ ''/api/counterfactual/analyze'') (analyze_body cir)]"
  have tr: "trace (submit API_URL backend st)
              = ?before @ [SetAnalysis result]
                @ (if triggered (attorney_referral result)
                   then [SetShowAttorneyModal True] else [])
                @ [SetLoading False]"
    by (simp add: submit_ok [OF nonblank ex an])
  have "\<forall>b. SetShowAttorneyModal b \<notin> set ?before"
    and "\<forall>r. SetAnalysis r \<notin> set ?before"
    by simp_all
  with tr have "\<exists>before.
            trace (submit API_URL backend st)
              = before @ [SetAnalysis result]
                @ (if triggered (attorney_referral result)
                   then [SetShowAttorneyModal True] else [])
                @ [SetLoading False]
          \<and> (\<forall>b. SetShowAttorneyModal b \<notin> set before)
          \<and> (\<forall>r. SetAnalysis r \<notin> set before)"
    by blast
  moreover have "SetShowAttorneyModal True \<in> set (trace (submit API_URL backend st))
                   \<longleftrightarrow> triggered (attorney_referral result)"
    by (simp add: tr)
  moreover have "SetShowAttorneyModal False \<notin> set (trace (submit API_URL backend st))"
    by (simp add: tr)
  ultimately show ?thesis by blast
qed

lemma ex_backend_ok_answers:
  "extract_api (ex_backend_ok t) (''http://localhost:8000'' @ ''/api/cir/extract'')
     (extract_body (inputText ex_state)) = Inr 42"
  "analyze_api (ex_backend_ok t) (''http://localhost:8000'' @ ''/api/counterfactual/analyze'')
     (analyze_body 42) = Inr (ex_result t)"
  by (simp_all add: ex_backend_ok_def)

text \<open>
  The amended claim at a result that triggers the referral and at one that does not.
\<close>

theorem modal_opened_iff_triggered_witness:
  "trim (inputText ex_state) \<noteq> []
   \<and> triggered (attorney_referral (ex_result True))
   \<and> SetShowAttorneyModal True
       \<in> set (trace (submit ''http://localhost:8000'' (ex_backend_ok True) ex_state))
   \<and> \<not> triggered (attorney_referral (ex_result False))
   \<and> SetShowAttorneyModal True
       \<notin> set (trace (submit ''http://localhost:8000'' (ex_backend_ok False) ex_state))
   \<and> SetShowAttorneyModal False
       \<notin> set (trace (submit ''http://localhost:8000'' (ex_backend_ok False) ex_state))"
proof -
  have opens: "triggered (attorney_referral (ex_result True))"
    and stays: "\<not> triggered (attorney_referral (ex_result False))"
    by (simp_all add: ex_result_def)
  from modal_opened_iff_triggered
         [OF ex_state_nonblank ex_backend_ok_answers(1) ex_backend_ok_answers(2), of True] opens
  have "SetShowAttorneyModal True
          \<in> set (trace (submit ''http://localhost:8000'' (ex_backend_ok True) ex_state))"
    by blast
  moreover from modal_opened_iff_triggered
         [OF ex_state_nonblank ex_backend_ok_answers(1) ex_backend_ok_answers(2), of False] stays
  have "SetShowAttorneyModal True
          \<notin> set (trace (submit ''http://localhost:8000'' (ex_backend_ok False) ex_state))"
    and "SetShowAttorneyModal False
          \<notin> set (trace (submit ''http://localhost:8000'' (ex_backend_ok False) ex_state))"
    by blast+
  ultimately show ?thesis using opens stays ex_state_nonblank by blast
qed

text \<open>
  Claim C6 as it is stated fails when the modal is still open from an earlier result
  and is left open while the requests are under way: a result whose \<open>triggered\<close> field
  is false is applied, and the modal is visible.
\<close>

theorem modal_stays_open_counterexample:
  "error (ui (submit ''http://localhost:8000'' (ex_backend_ok False) ex_state_held)) = None
   \<and> analysis (ui (submit ''http://localhost:8000'' (ex_backend_ok False) ex_state_held))
       = Some (ex_result False)
   \<and> \<not> triggered (attorney_referral (ex_result False))
   \<and> modal_visible (ui (submit ''http://localhost:8000'' (ex_backend_ok False) ex_state_held))"
proof -
  have ex: "extract_api (ex_backend_ok False) (''http://localhost:8000'' @ ''/api/cir/extract'')
              (extract_body (inputText ex_state_held)) = Inr 42"
    and an: "analyze_api (ex_backend_ok False)
              (''http://localhost:8000'' @ ''/api/counterfactual/analyze'')
              (analyze_body 42) = Inr (ex_result False)"
    by (simp_all add: ex_backend_ok_def)
  have closed: "\<not> triggered (attorney_referral (ex_result False))"
    by (simp add: ex_result_def)
  have "showAttorneyModal ex_state_held"
    by (simp add: ex_state_held_def)
  with closed show ?thesis
    by (simp add: submit_ok [OF ex_state_held_nonblank ex an] modal_visible_def)
qed

end
